theory Spec2Isabelle
  imports Main "HOL-Library.Sublist"
begin

section \<open>The persisted data\<close>

text \<open>
  The storage module keeps two JSON values in AsyncStorage: the root document under
  \<^verbatim>\<open>@semester_task_manager\<close> and the list of semester names under
  \<^verbatim>\<open>@semesters_list\<close>. The root document maps a semester name to an object that
  maps a subject name to \<^verbatim>\<open>{ tasks: [...], colorTag: "#..." }\<close>.

  The own properties of a JSON object are a finite map. A field that JSON may leave out is
  optional: \<open>None\<close> is the JavaScript \<^verbatim>\<open>undefined\<close> read from a missing field.
  Tasks, subject records and semester records are objects, hence truthy whenever present.
  A task index is an integer (\<^typ>\<open>int\<close>, so negative indices exist).
\<close>

record task =
  title :: string
  dueDate :: string
  completed :: bool

record subject =
  tasks :: "task list option"
  colorTag :: "string option"

type_synonym semester_data = "string \<rightharpoonup> subject"

type_synonym document = "string \<rightharpoonup> semester_data"

datatype storage_key = STORAGE_KEY | SEMESTERS_KEY

text \<open>
  The state of AsyncStorage: the two items (\<open>None\<close> while the key was never written) and
  the keys passed to \<^verbatim>\<open>setItem\<close> so far, oldest first. Reads and writes of AsyncStorage
  itself are taken to succeed.
\<close>

record storage =
  data_item :: "document option"
  semesters_item :: "string list option"
  writes :: "storage_key list"

text \<open>
  What an operation can throw: \<^verbatim>\<open>new Error(message)\<close> raised by the module itself, or the
  \<^verbatim>\<open>TypeError\<close> the engine raises on a property access on \<^verbatim>\<open>undefined\<close>. Every
  operation returns its outcome together with the storage it leaves behind.
\<close>

datatype error = Error string | TypeError

type_synonym outcome = "(error + unit) \<times> storage"

section \<open>Property lookup on plain objects\<close>

text \<open>
  The root document and the semester records come from \<^verbatim>\<open>JSON.parse\<close> or from an object
  literal, so they inherit from \<^verbatim>\<open>Object.prototype\<close>. The read \<^verbatim>\<open>obj[key]\<close> finds an own
  property first, then an inherited one, and is \<^verbatim>\<open>undefined\<close> otherwise. What
  \<^verbatim>\<open>Object.prototype\<close> offers is its functions, listed below, and the accessor
  \<^verbatim>\<open>__proto__\<close>, which yields \<^verbatim>\<open>Object.prototype\<close> itself; every one of these values is
  truthy, none has a \<^verbatim>\<open>tasks\<close> property, and none has an enumerable property of its own.
  \<^verbatim>\<open>Object.prototype\<close> is taken as the engine provides it, with nothing added.
\<close>

definition objectPrototypeFunctions :: "string list" where
  "objectPrototypeFunctions =
     [''constructor'', ''hasOwnProperty'', ''isPrototypeOf'', ''propertyIsEnumerable'',
      ''toLocaleString'', ''toString'', ''valueOf'', ''__defineGetter__'',
      ''__defineSetter__'', ''__lookupGetter__'', ''__lookupSetter__'']"

datatype builtin = PrototypeObject | BuiltinFunction

datatype 'a property = Own 'a | Inherited builtin | Undefined

definition getProperty :: "(string \<rightharpoonup> 'a) \<Rightarrow> string \<Rightarrow> 'a property" where
  "getProperty obj key =
     (case obj key of
        Some v \<Rightarrow> Own v
      | None \<Rightarrow>
          if key = ''__proto__'' then Inherited PrototypeObject
          else if key \<in> set objectPrototypeFunctions then Inherited BuiltinFunction
          else Undefined)"

text \<open>
  The write \<^verbatim>\<open>obj[key] = v\<close> of an object \<open>v\<close> creates or replaces the own property.
  The one exception is the key \<^verbatim>\<open>__proto__\<close> on an object with no own property of that
  name: the inherited setter runs and replaces the prototype of \<^verbatim>\<open>obj\<close>, no own property
  appears, and \<^verbatim>\<open>JSON.stringify\<close> writes \<^verbatim>\<open>obj\<close> as before.
\<close>

definition setProperty :: "(string \<rightharpoonup> 'a) \<Rightarrow> string \<Rightarrow> 'a \<Rightarrow> (string \<rightharpoonup> 'a)" where
  "setProperty obj key v = (if key = ''__proto__'' \<and> obj key = None then obj else obj(key \<mapsto> v))"

section \<open>Loading and saving\<close>

definition loadData :: "storage \<Rightarrow> document" where
  "loadData s = (case data_item s of None \<Rightarrow> Map.empty | Some d \<Rightarrow> d)"

definition loadSemesters :: "storage \<Rightarrow> string list" where
  "loadSemesters s = (case semesters_item s of None \<Rightarrow> [] | Some l \<Rightarrow> l)"

definition saveSemesters :: "string list \<Rightarrow> storage \<Rightarrow> storage" where
  "saveSemesters semesters s =
     s\<lparr>semesters_item := Some semesters, writes := writes s @ [SEMESTERS_KEY]\<rparr>"

definition saveData :: "document \<Rightarrow> storage \<Rightarrow> storage" where
  "saveData d s = s\<lparr>data_item := Some d, writes := writes s @ [STORAGE_KEY]\<rparr>"

text \<open>
  \<^verbatim>\<open>data[semester] || {}\<close> is the stored semester record, a fresh empty object when the
  name is unknown, and the inherited built-in when the name is one of
  \<^verbatim>\<open>Object.prototype\<close> with no stored record.
\<close>

datatype semester_value = SemesterObject semester_data | BuiltinValue builtin

definition getSemesterData :: "string \<Rightarrow> storage \<Rightarrow> semester_value" where
  "getSemesterData semester s =
     (case getProperty (loadData s) semester of
        Own sd \<Rightarrow> SemesterObject sd
      | Inherited b \<Rightarrow> BuiltinValue b
      | Undefined \<Rightarrow> SemesterObject Map.empty)"

definition saveSemesterData :: "string \<Rightarrow> semester_data \<Rightarrow> storage \<Rightarrow> storage" where
  "saveSemesterData semester semesterData s =
     saveData (setProperty (loadData s) semester semesterData) s"

section \<open>Semesters\<close>

definition addSemester :: "string \<Rightarrow> storage \<Rightarrow> outcome" where
  "addSemester semesterName s =
     (let semesters = loadSemesters s
      in if semesterName \<notin> set semesters
         then (Inr (), saveSemesters (semesters @ [semesterName]) s)
         else (Inr (), s))"

definition deleteSemester :: "string \<Rightarrow> storage \<Rightarrow> outcome" where
  "deleteSemester semesterName s =
     (let semesters = loadSemesters s;
          updatedSemesters = filter (\<lambda>x. x \<noteq> semesterName) semesters;
          s1 = saveSemesters updatedSemesters s;
          d = loadData s1
      in (Inr (), saveData (d(semesterName := None)) s1))"

text \<open>
  After the index is saved, \<^verbatim>\<open>if (data[oldName])\<close> is a truthiness test. On a stored
  record the record moves to the new name. On an inherited function the assignment stores
  the function under the new name, which \<^verbatim>\<open>JSON.stringify\<close> leaves out, so whatever was
  stored under the new name is gone. On the inherited \<^verbatim>\<open>__proto__\<close> the assignment stores
  \<^verbatim>\<open>Object.prototype\<close>, which is written as \<^verbatim>\<open>{}\<close>. \<^verbatim>\<open>delete\<close> removes own
  properties only.
\<close>

definition updateSemester :: "string \<Rightarrow> string \<Rightarrow> storage \<Rightarrow> outcome" where
  "updateSemester oldName newName s =
     (if oldName = newName then (Inr (), s)
      else
        let semesters = loadSemesters s
        in if newName \<in> set semesters
           then (Inl (Error ''A semester with this name already exists''), s)
           else
             let updatedSemesters = map (\<lambda>x. if x = oldName then newName else x) semesters;
                 s1 = saveSemesters updatedSemesters s;
                 d = loadData s1
             in (case getProperty d oldName of
                   Own sd \<Rightarrow> (Inr (), saveData ((setProperty d newName sd)(oldName := None)) s1)
                 | Inherited BuiltinFunction \<Rightarrow> (Inr (), saveData (d(newName := None)) s1)
                 | Inherited PrototypeObject \<Rightarrow> (Inr (), saveData (d(newName \<mapsto> Map.empty)) s1)
                 | Undefined \<Rightarrow> (Inr (), s1)))"

section \<open>Subjects\<close>

text \<open>
  A subject or task operation starts from \<^verbatim>\<open>getSemesterData\<close>. When that is an inherited
  built-in, the operation reads and writes properties of an object shared by the whole
  engine; what it does then depends on the engine and on earlier calls, and is not embedded:
  the result is \<open>None\<close>. Everywhere else the result is \<open>Some\<close> outcome.

  \<^verbatim>\<open>addSubject\<close> has a default parameter (\<^verbatim>\<open>colorTag = '#6C63FF'\<close>): the argument
  \<open>None\<close> is the call that leaves it out. Its guard \<^verbatim>\<open>!semesterData[subjectName]\<close> is a
  truthiness test, so an inherited name counts as present.
\<close>

definition addSubject :: "string \<Rightarrow> string \<Rightarrow> string option \<Rightarrow> storage \<Rightarrow> outcome option" where
  "addSubject semester subjectName colorTagArg s =
     (let colorTag' = (case colorTagArg of None \<Rightarrow> ''#6C63FF'' | Some c \<Rightarrow> c)
      in case getSemesterData semester s of
           BuiltinValue b \<Rightarrow> None
         | SemesterObject semesterData \<Rightarrow>
             (case getProperty semesterData subjectName of
                Undefined \<Rightarrow>
                  Some (Inr (), saveSemesterData semester
                     (semesterData(subjectName \<mapsto> \<lparr>tasks = Some [], colorTag = Some colorTag'\<rparr>)) s)
              | Own sub \<Rightarrow> Some (Inr (), s)
              | Inherited b \<Rightarrow> Some (Inr (), s)))"

definition deleteSubject :: "string \<Rightarrow> string \<Rightarrow> storage \<Rightarrow> outcome option" where
  "deleteSubject semester subjectName s =
     (case getSemesterData semester s of
        BuiltinValue b \<Rightarrow> None
      | SemesterObject semesterData \<Rightarrow>
          Some (Inr (), saveSemesterData semester (semesterData(subjectName := None)) s))"

text \<open>
  The duplicate guard \<^verbatim>\<open>if (semesterData[newSubjectName])\<close> is a truthiness test as well.
  In \<^verbatim>\<open>{ ...semesterData[oldSubjectName], colorTag }\<close> the spread of \<^verbatim>\<open>undefined\<close> or of
  an inherited built-in contributes no field. With equal names, the assignment
  \<^verbatim>\<open>semesterData[oldSubjectName].colorTag = colorTag\<close> is a \<^verbatim>\<open>TypeError\<close> on a missing
  subject; on an inherited function it lands on that function, which no operation reads a
  \<^verbatim>\<open>colorTag\<close> from, and the semester is saved as it was; on the inherited
  \<^verbatim>\<open>__proto__\<close> it adds a property to \<^verbatim>\<open>Object.prototype\<close>, which is not embedded.
\<close>

definition updateSubject :: "string \<Rightarrow> string \<Rightarrow> string \<Rightarrow> string \<Rightarrow> storage \<Rightarrow> outcome option" where
  "updateSubject semester oldSubjectName newSubjectName colorTag' s =
     (case getSemesterData semester s of
        BuiltinValue b \<Rightarrow> None
      | SemesterObject semesterData \<Rightarrow>
          if oldSubjectName \<noteq> newSubjectName
          then
            (case getProperty semesterData newSubjectName of
               Own sub \<Rightarrow> Some (Inl (Error ''A subject with this name already exists''), s)
             | Inherited b \<Rightarrow> Some (Inl (Error ''A subject with this name already exists''), s)
             | Undefined \<Rightarrow>
                 let spread = (case getProperty semesterData oldSubjectName of
                                 Own sub \<Rightarrow> sub
                               | Inherited b \<Rightarrow> \<lparr>tasks = None, colorTag = None\<rparr>
                               | Undefined \<Rightarrow> \<lparr>tasks = None, colorTag = None\<rparr>);
                     semesterData1 = semesterData(newSubjectName \<mapsto> spread\<lparr>colorTag := Some colorTag'\<rparr>);
                     semesterData2 = semesterData1(oldSubjectName := None)
                 in Some (Inr (), saveSemesterData semester semesterData2 s))
          else
            (case getProperty semesterData oldSubjectName of
               Own sub \<Rightarrow>
                 Some (Inr (), saveSemesterData semester
                    (semesterData(oldSubjectName \<mapsto> sub\<lparr>colorTag := Some colorTag'\<rparr>)) s)
             | Inherited BuiltinFunction \<Rightarrow> Some (Inr (), saveSemesterData semester semesterData s)
             | Inherited PrototypeObject \<Rightarrow> None
             | Undefined \<Rightarrow> Some (Inl TypeError, s)))"

section \<open>Tasks\<close>

text \<open>
  \<^verbatim>\<open>Array.prototype.splice(start, deleteCount)\<close> on an integer start: a negative start counts
  from the end and is clamped at 0, a start beyond the length is clamped at the length, and
  the delete count is clamped to what is left.
\<close>

definition splice :: "'a list \<Rightarrow> int \<Rightarrow> int \<Rightarrow> 'a list" where
  "splice xs start deleteCount =
     (let len = int (length xs);
          actualStart = (if start < 0 then max (len + start) 0 else min start len);
          actualDeleteCount = min (max deleteCount 0) (len - actualStart)
      in take (nat actualStart) xs @ drop (nat (actualStart + actualDeleteCount)) xs)"

text \<open>
  \<^verbatim>\<open>addTask\<close> creates the subject when \<^verbatim>\<open>!semesterData[subject]\<close>, then calls
  \<^verbatim>\<open>semesterData[subject].tasks.push(task)\<close>. On a record without a \<^verbatim>\<open>tasks\<close> field and
  on an inherited built-in (truthy, so nothing is created) the call is made on
  \<^verbatim>\<open>undefined\<close> and throws before anything is saved.
\<close>

definition addTask :: "string \<Rightarrow> string \<Rightarrow> task \<Rightarrow> storage \<Rightarrow> outcome option" where
  "addTask semester subjectName t s =
     (case getSemesterData semester s of
        BuiltinValue b \<Rightarrow> None
      | SemesterObject semesterData \<Rightarrow>
          (case getProperty semesterData subjectName of
             Undefined \<Rightarrow>
               Some (Inr (), saveSemesterData semester
                  (semesterData(subjectName \<mapsto>
                     \<lparr>tasks = Some ([] @ [t]), colorTag = Some ''#6C63FF''\<rparr>)) s)
           | Inherited b \<Rightarrow> Some (Inl TypeError, s)
           | Own sub \<Rightarrow>
               (case tasks sub of
                  None \<Rightarrow> Some (Inl TypeError, s)
                | Some ts \<Rightarrow>
                    Some (Inr (), saveSemesterData semester
                       (semesterData(subjectName \<mapsto> sub\<lparr>tasks := Some (ts @ [t])\<rparr>)) s))))"

text \<open>
  In the guard \<^verbatim>\<open>semesterData[subject] && semesterData[subject].tasks[taskIndex]\<close> the
  second read is a task object (truthy) when the index is within the array and
  \<^verbatim>\<open>undefined\<close> (falsy) otherwise; on a record without \<^verbatim>\<open>tasks\<close> and on an inherited
  built-in it indexes \<^verbatim>\<open>undefined\<close> and throws.
\<close>

definition updateTask :: "string \<Rightarrow> string \<Rightarrow> int \<Rightarrow> task \<Rightarrow> storage \<Rightarrow> outcome option" where
  "updateTask semester subjectName taskIndex updatedTask s =
     (case getSemesterData semester s of
        BuiltinValue b \<Rightarrow> None
      | SemesterObject semesterData \<Rightarrow>
          (case getProperty semesterData subjectName of
             Undefined \<Rightarrow> Some (Inr (), s)
           | Inherited b \<Rightarrow> Some (Inl TypeError, s)
           | Own sub \<Rightarrow>
               (case tasks sub of
                  None \<Rightarrow> Some (Inl TypeError, s)
                | Some ts \<Rightarrow>
                    if 0 \<le> taskIndex \<and> taskIndex < int (length ts)
                    then Some (Inr (), saveSemesterData semester
                            (semesterData(subjectName \<mapsto>
                               sub\<lparr>tasks := Some (ts[nat taskIndex := updatedTask])\<rparr>)) s)
                    else Some (Inr (), s))))"

definition deleteTask :: "string \<Rightarrow> string \<Rightarrow> int \<Rightarrow> storage \<Rightarrow> outcome option" where
  "deleteTask semester subjectName taskIndex s =
     (case getSemesterData semester s of
        BuiltinValue b \<Rightarrow> None
      | SemesterObject semesterData \<Rightarrow>
          (case getProperty semesterData subjectName of
             Undefined \<Rightarrow> Some (Inr (), s)
           | Inherited b \<Rightarrow> Some (Inl TypeError, s)
           | Own sub \<Rightarrow>
               (case tasks sub of
                  None \<Rightarrow> Some (Inl TypeError, s)
                | Some ts \<Rightarrow>
                    Some (Inr (), saveSemesterData semester
                       (semesterData(subjectName \<mapsto> sub\<lparr>tasks := Some (splice ts taskIndex 1)\<rparr>)) s))))"

definition toggleTaskCompletion :: "string \<Rightarrow> string \<Rightarrow> int \<Rightarrow> storage \<Rightarrow> outcome option" where
  "toggleTaskCompletion semester subjectName taskIndex s =
     (case getSemesterData semester s of
        BuiltinValue b \<Rightarrow> None
      | SemesterObject semesterData \<Rightarrow>
          (case getProperty semesterData subjectName of
             Undefined \<Rightarrow> Some (Inr (), s)
           | Inherited b \<Rightarrow> Some (Inl TypeError, s)
           | Own sub \<Rightarrow>
               (case tasks sub of
                  None \<Rightarrow> Some (Inl TypeError, s)
                | Some ts \<Rightarrow>
                    if 0 \<le> taskIndex \<and> taskIndex < int (length ts)
                    then
                      let old = ts ! nat taskIndex
                      in Some (Inr (), saveSemesterData semester
                            (semesterData(subjectName \<mapsto>
                               sub\<lparr>tasks := Some (ts[nat taskIndex := old\<lparr>completed := \<not> completed old\<rparr>])\<rparr>)) s)
                    else Some (Inr (), s))))"

section \<open>Sequencing\<close>

text \<open>
  Two awaited calls in a row: the second runs on the storage the first leaves, unless the
  first throws.
\<close>

definition andThen :: "outcome \<Rightarrow> (storage \<Rightarrow> outcome) \<Rightarrow> outcome" where
  "andThen r f = (case r of (Inl e, s) \<Rightarrow> (Inl e, s) | (Inr u, s) \<Rightarrow> f s)"

section \<open>What the persisted document holds\<close>

text \<open>
  The record stored for a semester (the empty record when there is none) and the record
  stored for a subject: own properties of the persisted document only.
\<close>

definition storedSemester :: "string \<Rightarrow> storage \<Rightarrow> semester_data" where
  "storedSemester semester s =
     (case loadData s semester of None \<Rightarrow> Map.empty | Some sd \<Rightarrow> sd)"

definition storedSubject :: "string \<Rightarrow> string \<Rightarrow> storage \<Rightarrow> subject option" where
  "storedSubject semester subjectName s = storedSemester semester s subjectName"

section \<open>Sample storages\<close>

definition emptyStorage :: storage where
  "emptyStorage = \<lparr>data_item = None, semesters_item = None, writes = []\<rparr>"

definition hw1 :: task where
  "hw1 = \<lparr>title = ''HW1'', dueDate = ''2025-01-10'', completed = False\<rparr>"

definition hw2 :: task where
  "hw2 = \<lparr>title = ''HW2'', dueDate = ''2025-02-10'', completed = False\<rparr>"

definition hw3 :: task where
  "hw3 = \<lparr>title = ''HW3'', dueDate = ''2025-03-10'', completed = True\<rparr>"

definition mathSubject :: subject where
  "mathSubject = \<lparr>tasks = Some [hw1, hw2], colorTag = Some ''#111111''\<rparr>"

definition artSubject :: subject where
  "artSubject = \<lparr>tasks = Some [hw3], colorTag = Some ''#333333''\<rparr>"

text \<open>A subject record as \<^verbatim>\<open>{"colorTag":"#111111"}\<close>, with no \<^verbatim>\<open>tasks\<close> field.\<close>

definition bareSubject :: subject where
  "bareSubject = \<lparr>tasks = None, colorTag = Some ''#111111''\<rparr>"

definition fallStorage :: storage where
  "fallStorage =
     \<lparr>data_item = Some [''Fall'' \<mapsto> [''Math'' \<mapsto> mathSubject, ''Art'' \<mapsto> artSubject]],
      semesters_item = Some [''Fall'', ''Spring''],
      writes = []\<rparr>"

definition bareStorage :: storage where
  "bareStorage =
     \<lparr>data_item = Some [''Fall'' \<mapsto> [''Math'' \<mapsto> bareSubject]],
      semesters_item = Some [''Fall''],
      writes = []\<rparr>"

text \<open>The same storage with \<^verbatim>\<open>"tasks":[]\<close> in the record.\<close>

definition blankSubject :: subject where
  "blankSubject = \<lparr>tasks = Some [], colorTag = Some ''#111111''\<rparr>"

definition blankStorage :: storage where
  "blankStorage =
     \<lparr>data_item = Some [''Fall'' \<mapsto> [''Math'' \<mapsto> blankSubject]],
      semesters_item = Some [''Fall''],
      writes = []\<rparr>"

text \<open>
  The empty storage after \<^verbatim>\<open>updateSubject("Fall", "Physics", "Math", "#111111")\<close>.
\<close>

definition renamedStorage :: storage where
  "renamedStorage =
     \<lparr>data_item = Some [''Fall'' \<mapsto> [''Math'' \<mapsto> bareSubject]],
      semesters_item = None,
      writes = [STORAGE_KEY]\<rparr>"

section \<open>Reading back what was saved\<close>

lemma loadData_saveData [simp]: "loadData (saveData d s) = d"
  by (simp add: loadData_def saveData_def)

lemma loadSemesters_saveData [simp]: "loadSemesters (saveData d s) = loadSemesters s"
  by (simp add: loadSemesters_def saveData_def)

lemma writes_saveData [simp]: "writes (saveData d s) = writes s @ [STORAGE_KEY]"
  by (simp add: saveData_def)

lemma loadSemesters_saveSemesters [simp]: "loadSemesters (saveSemesters l s) = l"
  by (simp add: loadSemesters_def saveSemesters_def)

lemma loadData_saveSemesters [simp]: "loadData (saveSemesters l s) = loadData s"
  by (simp add: loadData_def saveSemesters_def)

lemma getProperty_Own [simp]: "obj key = Some v \<Longrightarrow> getProperty obj key = Own v"
  by (simp add: getProperty_def)

lemma getProperty_Undefined_absent: "getProperty obj key = Undefined \<Longrightarrow> obj key = None"
  by (simp add: getProperty_def split: option.splits)

lemma getProperty_Undefined_proto: "getProperty obj key = Undefined \<Longrightarrow> key \<noteq> ''__proto__''"
  by (auto simp add: getProperty_def split: option.splits)

text \<open>
  When \<^verbatim>\<open>getSemesterData\<close> is an object, it is the stored record, and saving a record
  under that name stores it as an own property.
\<close>

lemma getSemesterData_object:
  assumes "getSemesterData semester s = SemesterObject sd"
  shows "storedSemester semester s = sd"
    and "saveSemesterData semester x s = saveData ((loadData s)(semester \<mapsto> x)) s"
proof -
  show "storedSemester semester s = sd"
    using assms
    by (auto simp add: getSemesterData_def getProperty_def storedSemester_def
        split: option.splits if_splits)
  have "loadData s semester \<noteq> None \<or> semester \<noteq> ''__proto__''"
    using assms
    by (auto simp add: getSemesterData_def getProperty_def split: option.splits if_splits)
  then show "saveSemesterData semester x s = saveData ((loadData s)(semester \<mapsto> x)) s"
    by (auto simp add: saveSemesterData_def setProperty_def)
qed

lemma storedSubject_semester:
  assumes "storedSubject semester subjectName s = Some sub"
  shows "getSemesterData semester s = SemesterObject (storedSemester semester s)"
    and "getProperty (storedSemester semester s) subjectName = Own sub"
proof -
  from assms obtain sd where sd: "loadData s semester = Some sd"
    by (cases "loadData s semester") (simp_all add: storedSubject_def storedSemester_def)
  then show "getSemesterData semester s = SemesterObject (storedSemester semester s)"
    by (simp add: getSemesterData_def storedSemester_def)
  from assms show "getProperty (storedSemester semester s) subjectName = Own sub"
    by (simp add: storedSubject_def)
qed

lemma storedSemester_saveData [simp]:
  "storedSemester sem (saveData (d(sem' \<mapsto> sd)) s) = (if sem = sem' then sd else
     (case d sem of None \<Rightarrow> Map.empty | Some x \<Rightarrow> x))"
  by (simp add: storedSemester_def)

lemma storedSemester_fallStorage:
  "storedSemester ''Fall'' fallStorage = [''Math'' \<mapsto> mathSubject, ''Art'' \<mapsto> artSubject]"
  by (simp add: storedSemester_def loadData_def fallStorage_def)

lemma getSemesterData_fallStorage:
  "getSemesterData ''Fall'' fallStorage =
     SemesterObject [''Math'' \<mapsto> mathSubject, ''Art'' \<mapsto> artSubject]"
  by (simp add: getSemesterData_def loadData_def fallStorage_def)

lemma getSemesterData_bareStorage:
  "getSemesterData ''Fall'' bareStorage = SemesterObject [''Math'' \<mapsto> bareSubject]"
  by (simp add: getSemesterData_def loadData_def bareStorage_def)

lemma getSemesterData_blankStorage:
  "getSemesterData ''Fall'' blankStorage = SemesterObject [''Math'' \<mapsto> blankSubject]"
  by (simp add: getSemesterData_def loadData_def blankStorage_def)

lemma getSemesterData_emptyStorage:
  "getSemesterData ''Fall'' emptyStorage = SemesterObject Map.empty"
  by (simp add: getSemesterData_def getProperty_def objectPrototypeFunctions_def
      loadData_def emptyStorage_def)

section \<open>Where the subject and task operations are embedded\<close>

text \<open>
  The result is \<open>None\<close> exactly when the semester has no stored record and its name is
  inherited from \<^verbatim>\<open>Object.prototype\<close>, and, for \<^verbatim>\<open>updateSubject\<close>, also when an
  unstored \<^verbatim>\<open>__proto__\<close> is renamed to itself.
\<close>

lemma getSemesterData_builtin_iff:
  "(\<exists>b. getSemesterData semester s = BuiltinValue b) \<longleftrightarrow>
     loadData s semester = None \<and>
     (semester = ''__proto__'' \<or> semester \<in> set objectPrototypeFunctions)"
  by (auto simp add: getSemesterData_def getProperty_def split: option.splits)

lemma task_operations_None_iff:
  "addTask semester subj t s = None \<longleftrightarrow> (\<exists>b. getSemesterData semester s = BuiltinValue b)"
  "updateTask semester subj i t s = None \<longleftrightarrow> (\<exists>b. getSemesterData semester s = BuiltinValue b)"
  "deleteTask semester subj i s = None \<longleftrightarrow> (\<exists>b. getSemesterData semester s = BuiltinValue b)"
  "toggleTaskCompletion semester subj i s = None \<longleftrightarrow>
     (\<exists>b. getSemesterData semester s = BuiltinValue b)"
  by (auto simp add: addTask_def updateTask_def deleteTask_def toggleTaskCompletion_def Let_def
      split: semester_value.splits property.splits option.splits)

lemma subject_operations_None_iff:
  "addSubject semester name colorTagArg s = None \<longleftrightarrow>
     (\<exists>b. getSemesterData semester s = BuiltinValue b)"
  "deleteSubject semester name s = None \<longleftrightarrow> (\<exists>b. getSemesterData semester s = BuiltinValue b)"
  "updateSubject semester old new c s = None \<longleftrightarrow>
     (\<exists>b. getSemesterData semester s = BuiltinValue b) \<or>
     (old = new \<and> old = ''__proto__'' \<and> storedSubject semester old s = None)"
  apply (auto simp add: addSubject_def deleteSubject_def Let_def
      split: semester_value.splits property.splits option.splits)[2]
  apply (auto simp add: updateSubject_def Let_def getProperty_def storedSubject_def
      dest: getSemesterData_object(1)
      split: semester_value.splits property.splits option.splits builtin.splits if_splits)
  done

section \<open>Semesters: duplicate names and idempotent add\<close>

text \<open>
  C1: renaming a semester to a different name that is already in the index throws the
  duplicate-name error and leaves the whole storage as it was: the index, every subtree of
  the root document (those of both names among them), and no write is made.
\<close>

theorem updateSemester_duplicate:
  assumes "newName \<in> set (loadSemesters s)" and "newName \<noteq> oldName"
  shows "updateSemester oldName newName s =
           (Inl (Error ''A semester with this name already exists''), s)"
  using assms by (simp add: updateSemester_def)

theorem updateSemester_duplicate_witness:
  "''Spring'' \<in> set (loadSemesters fallStorage) \<and> ''Spring'' \<noteq> ''Fall'' \<and>
   updateSemester ''Fall'' ''Spring'' fallStorage =
     (Inl (Error ''A semester with this name already exists''), fallStorage)"
proof -
  have a: "''Spring'' \<in> set (loadSemesters fallStorage)"
    by (simp add: loadSemesters_def fallStorage_def)
  have b: "''Spring'' \<noteq> ''Fall''" by simp
  show ?thesis using a b updateSemester_duplicate [OF a b] by simp
qed

text \<open>
  C6: \<^verbatim>\<open>addSemester(x)\<close> leaves the storage untouched when \<open>x\<close> is in the index and
  otherwise saves the index with \<open>x\<close> appended; so from an index without \<open>x\<close>, adding
  \<open>x\<close> twice is the same as adding it once, the index is the old one followed by \<open>x\<close>,
  and \<open>x\<close> occurs in it exactly once.
\<close>

theorem addSemester_idempotent:
  "(x \<in> set (loadSemesters s) \<longrightarrow> addSemester x s = (Inr (), s)) \<and>
   (x \<notin> set (loadSemesters s) \<longrightarrow>
      addSemester x s = (Inr (), saveSemesters (loadSemesters s @ [x]) s) \<and>
      andThen (addSemester x s) (addSemester x) = addSemester x s \<and>
      loadSemesters (snd (andThen (addSemester x s) (addSemester x))) = loadSemesters s @ [x] \<and>
      count_list (loadSemesters (snd (andThen (addSemester x s) (addSemester x)))) x = 1)"
  by (simp add: addSemester_def andThen_def Let_def)

theorem addSemester_idempotent_witness:
  "(''Fall'' \<in> set (loadSemesters fallStorage) \<and>
    addSemester ''Fall'' fallStorage = (Inr (), fallStorage)) \<and>
   (''Winter'' \<notin> set (loadSemesters fallStorage) \<and>
      loadSemesters (snd (andThen (addSemester ''Winter'' fallStorage) (addSemester ''Winter''))) =
        [''Fall'', ''Spring'', ''Winter''] \<and>
      count_list (loadSemesters (snd (andThen (addSemester ''Winter'' fallStorage)
        (addSemester ''Winter'')))) ''Winter'' = 1)"
proof -
  have a: "''Fall'' \<in> set (loadSemesters fallStorage)"
    and b: "''Winter'' \<notin> set (loadSemesters fallStorage)"
    and c: "loadSemesters fallStorage = [''Fall'', ''Spring'']"
    by (simp_all add: loadSemesters_def fallStorage_def)
  from a addSemester_idempotent [of "''Fall''" fallStorage]
  have d: "addSemester ''Fall'' fallStorage = (Inr (), fallStorage)" by blast
  from b addSemester_idempotent [of "''Winter''" fallStorage]
  have "loadSemesters (snd (andThen (addSemester ''Winter'' fallStorage) (addSemester ''Winter''))) =
          loadSemesters fallStorage @ [''Winter''] \<and>
        count_list (loadSemesters (snd (andThen (addSemester ''Winter'' fallStorage)
          (addSemester ''Winter'')))) ''Winter'' = 1"
    by blast
  with a b c d show ?thesis by simp
qed

section \<open>Subjects: renaming and adding\<close>

text \<open>
  C2: renaming a subject to a different name that is already a subject of the semester
  throws the duplicate-name error and leaves the storage as it was, so the semester record
  with both subjects and all their tasks is unchanged.
\<close>

theorem updateSubject_duplicate:
  assumes "newName \<noteq> oldName" and "storedSubject semester newName s = Some sub"
  shows "updateSubject semester oldName newName c s =
           Some (Inl (Error ''A subject with this name already exists''), s)"
  using assms(1) storedSubject_semester [OF assms(2)]
  by (simp add: updateSubject_def)

theorem updateSubject_duplicate_witness:
  "''Art'' \<noteq> ''Math'' \<and> storedSubject ''Fall'' ''Art'' fallStorage = Some artSubject \<and>
   updateSubject ''Fall'' ''Math'' ''Art'' ''#222222'' fallStorage =
     Some (Inl (Error ''A subject with this name already exists''), fallStorage)"
proof -
  have a: "''Art'' \<noteq> ''Math''" by simp
  have b: "storedSubject ''Fall'' ''Art'' fallStorage = Some artSubject"
    by (simp add: storedSubject_def storedSemester_fallStorage)
  show ?thesis using a b updateSubject_duplicate [OF a b] by simp
qed

text \<open>
  C7: renaming a subject that exists to its own name saves the semester with that subject's
  \<^verbatim>\<open>colorTag\<close> set to the given colour: its tasks are what they were, every other
  subject of the semester, every other semester and the index are unchanged.
\<close>

theorem updateSubject_same_name:
  assumes "storedSubject semester n s = Some sub"
  shows "(let s' = saveSemesterData semester
                     ((storedSemester semester s)(n \<mapsto> sub\<lparr>colorTag := Some c\<rparr>)) s
          in updateSubject semester n n c s = Some (Inr (), s') \<and>
             storedSubject semester n s' = Some \<lparr>tasks = tasks sub, colorTag = Some c\<rparr> \<and>
             (\<forall>m. m \<noteq> n \<longrightarrow> storedSubject semester m s' = storedSubject semester m s) \<and>
             (\<forall>sem'. sem' \<noteq> semester \<longrightarrow> loadData s' sem' = loadData s sem') \<and>
             loadSemesters s' = loadSemesters s)"
proof -
  note obj = storedSubject_semester [OF assms]
  note sv = getSemesterData_object(2) [OF obj(1)]
  have "updateSubject semester n n c s =
          Some (Inr (), saveSemesterData semester
                  ((storedSemester semester s)(n \<mapsto> sub\<lparr>colorTag := Some c\<rparr>)) s)"
    using obj by (simp add: updateSubject_def)
  then show ?thesis
    by (simp add: Let_def sv storedSubject_def)
qed

theorem updateSubject_same_name_witness:
  "storedSubject ''Fall'' ''Math'' fallStorage = Some mathSubject \<and>
   (let s' = saveSemesterData ''Fall''
               ((storedSemester ''Fall'' fallStorage)(''Math'' \<mapsto>
                  mathSubject\<lparr>colorTag := Some ''#222222''\<rparr>)) fallStorage
    in updateSubject ''Fall'' ''Math'' ''Math'' ''#222222'' fallStorage = Some (Inr (), s') \<and>
       storedSubject ''Fall'' ''Math'' s' =
         Some \<lparr>tasks = Some [hw1, hw2], colorTag = Some ''#222222''\<rparr> \<and>
       storedSubject ''Fall'' ''Art'' s' = Some artSubject)"
proof -
  have a: "storedSubject ''Fall'' ''Math'' fallStorage = Some mathSubject"
    and b: "storedSubject ''Fall'' ''Art'' fallStorage = Some artSubject"
    by (simp_all add: storedSubject_def storedSemester_fallStorage)
  have c: "''Art'' \<noteq> ''Math''" by simp
  have t: "tasks mathSubject = Some [hw1, hw2]" by (simp add: mathSubject_def)
  from updateSubject_same_name [OF a, of "''#222222''"] a b c t show ?thesis
    by (simp add: Let_def)
qed

text \<open>
  C8: the property is that \<^verbatim>\<open>addSubject\<close> inserts the record exactly when the name is not
  a subject of the semester. For the name \<^verbatim>\<open>constructor\<close>, which is not a subject of the
  stored semester, the guard \<^verbatim>\<open>!semesterData[subjectName]\<close> finds the function inherited
  from \<^verbatim>\<open>Object.prototype\<close>: nothing is inserted and nothing is written, in a stored
  semester and in an empty storage alike, while another absent name is inserted.
\<close>

theorem addSubject_inherited_name:
  "storedSubject ''Fall'' ''constructor'' fallStorage = None \<and>
   addSubject ''Fall'' ''constructor'' (Some ''#444444'') fallStorage = Some (Inr (), fallStorage) \<and>
   addSubject ''Fall'' ''constructor'' (Some ''#444444'') emptyStorage = Some (Inr (), emptyStorage) \<and>
   storedSubject ''Fall'' ''Physics'' fallStorage = None \<and>
   addSubject ''Fall'' ''Physics'' (Some ''#444444'') fallStorage =
     Some (Inr (), saveSemesterData ''Fall''
        ((storedSemester ''Fall'' fallStorage)(''Physics'' \<mapsto>
           \<lparr>tasks = Some [], colorTag = Some ''#444444''\<rparr>)) fallStorage)"
  by (simp add: addSubject_def getSemesterData_fallStorage getSemesterData_emptyStorage
      storedSubject_def storedSemester_fallStorage getProperty_def objectPrototypeFunctions_def)

text \<open>
  What \<^verbatim>\<open>addSubject\<close> does on each kind of name: it inserts when the lookup is
  \<^verbatim>\<open>undefined\<close>, and writes nothing when the name is a stored subject or an inherited one.
\<close>

lemma addSubject_inserts:
  assumes "getSemesterData semester s = SemesterObject sd"
    and "getProperty sd name = Undefined"
  shows "addSubject semester name (Some c) s =
           Some (Inr (), saveSemesterData semester
              (sd(name \<mapsto> \<lparr>tasks = Some [], colorTag = Some c\<rparr>)) s)"
  using assms by (simp add: addSubject_def)

lemma addSubject_existing:
  assumes "storedSubject semester name s = Some sub"
  shows "addSubject semester name colorTagArg s = Some (Inr (), s)"
  using storedSubject_semester [OF assms] by (simp add: addSubject_def)

lemma addSubject_inherited:
  assumes "getSemesterData semester s = SemesterObject sd"
    and "getProperty sd name = Inherited b"
  shows "addSubject semester name colorTagArg s = Some (Inr (), s)"
  using assms by (simp add: addSubject_def)

text \<open>
  Renaming from a name that is not a subject to a name whose lookup is \<^verbatim>\<open>undefined\<close>.
\<close>

lemma updateSubject_from_absent:
  assumes "getSemesterData semester s = SemesterObject sd" and "sd old = None"
    and "new \<noteq> old" and "getProperty sd new = Undefined"
  shows "updateSubject semester old new c s =
           Some (Inr (), saveSemesterData semester
              (sd(new \<mapsto> \<lparr>tasks = None, colorTag = Some c\<rparr>)) s)"
proof -
  let ?r = "\<lparr>tasks = None, colorTag = Some c\<rparr>"
  have sp: "(case getProperty sd old of Own sub \<Rightarrow> sub
              | Inherited b \<Rightarrow> \<lparr>tasks = None, colorTag = None\<rparr>
              | Undefined \<Rightarrow> \<lparr>tasks = None, colorTag = None\<rparr>) = \<lparr>tasks = None, colorTag = None\<rparr>"
    using assms(2) by (simp add: getProperty_def)
  have "(sd(new \<mapsto> ?r))(old := None) = sd(new \<mapsto> ?r)"
    using assms(2,3) by (auto simp: fun_eq_iff)
  with assms sp show ?thesis
    by (simp add: updateSubject_def Let_def)
qed

text \<open>
  C9, the claim as it stands, at a semester where the old name is absent and the new,
  different name is a subject: the call throws the duplicate-name error and writes nothing,
  so it does fail there. It fails in the same way when the new name is not a subject but is
  inherited from \<^verbatim>\<open>Object.prototype\<close>.
\<close>

theorem updateSubject_absent_old_counterexample:
  "storedSubject ''Fall'' ''Physics'' fallStorage = None \<and> ''Math'' \<noteq> ''Physics'' \<and>
   updateSubject ''Fall'' ''Physics'' ''Math'' ''#222222'' fallStorage =
     Some (Inl (Error ''A subject with this name already exists''), fallStorage) \<and>
   storedSubject ''Fall'' ''toString'' fallStorage = None \<and> ''toString'' \<noteq> ''Physics'' \<and>
   updateSubject ''Fall'' ''Physics'' ''toString'' ''#222222'' fallStorage =
     Some (Inl (Error ''A subject with this name already exists''), fallStorage)"
  by (simp add: updateSubject_def getSemesterData_fallStorage storedSubject_def
      storedSemester_fallStorage getProperty_def objectPrototypeFunctions_def)

text \<open>
  C9, amended: in a semester record where the old name is not a subject and the new,
  different name is neither a subject nor a name inherited from \<^verbatim>\<open>Object.prototype\<close>
  (its lookup is \<^verbatim>\<open>undefined\<close>), the call succeeds and saves the semester with a record
  at the new name that has the given \<^verbatim>\<open>colorTag\<close> and no \<^verbatim>\<open>tasks\<close> field; every other
  subject is as before, and one write of the root document is made.
\<close>

theorem updateSubject_absent_old:
  assumes "getSemesterData semester s = SemesterObject sd" and "sd old = None"
    and "new \<noteq> old" and "getProperty sd new = Undefined"
  shows "(let s' = saveSemesterData semester
                     (sd(new \<mapsto> \<lparr>tasks = None, colorTag = Some c\<rparr>)) s
          in updateSubject semester old new c s = Some (Inr (), s') \<and>
             storedSubject semester new s' = Some \<lparr>tasks = None, colorTag = Some c\<rparr> \<and>
             (\<forall>m. m \<noteq> new \<longrightarrow> storedSubject semester m s' = storedSubject semester m s) \<and>
             writes s' = writes s @ [STORAGE_KEY])"
proof -
  note sv = getSemesterData_object [OF assms(1)]
  from updateSubject_from_absent [OF assms, of c] show ?thesis
    by (simp add: Let_def sv storedSubject_def)
qed

theorem updateSubject_absent_old_witness:
  "getSemesterData ''Fall'' fallStorage =
     SemesterObject [''Math'' \<mapsto> mathSubject, ''Art'' \<mapsto> artSubject] \<and>
   [''Math'' \<mapsto> mathSubject, ''Art'' \<mapsto> artSubject] ''Physics'' = None \<and>
   ''Chemistry'' \<noteq> ''Physics'' \<and>
   getProperty [''Math'' \<mapsto> mathSubject, ''Art'' \<mapsto> artSubject] ''Chemistry'' = Undefined \<and>
   (let s' = saveSemesterData ''Fall''
               ([''Math'' \<mapsto> mathSubject, ''Art'' \<mapsto> artSubject](''Chemistry'' \<mapsto>
                  \<lparr>tasks = None, colorTag = Some ''#111111''\<rparr>)) fallStorage
    in updateSubject ''Fall'' ''Physics'' ''Chemistry'' ''#111111'' fallStorage = Some (Inr (), s') \<and>
       storedSubject ''Fall'' ''Chemistry'' s' = Some bareSubject \<and>
       storedSubject ''Fall'' ''Math'' s' = Some mathSubject \<and>
       storedSubject ''Fall'' ''Art'' s' = Some artSubject \<and>
       writes s' = [STORAGE_KEY])"
proof -
  let ?sd = "[''Math'' \<mapsto> mathSubject, ''Art'' \<mapsto> artSubject]"
  have a: "getSemesterData ''Fall'' fallStorage = SemesterObject ?sd"
    by (rule getSemesterData_fallStorage)
  have b: "?sd ''Physics'' = None" by simp
  have c: "''Chemistry'' \<noteq> ''Physics''" by simp
  have d: "getProperty ?sd ''Chemistry'' = Undefined"
    by (simp add: getProperty_def objectPrototypeFunctions_def)
  have w: "writes fallStorage = []" by (simp add: fallStorage_def)
  have m: "storedSubject ''Fall'' ''Math'' fallStorage = Some mathSubject"
    and r: "storedSubject ''Fall'' ''Art'' fallStorage = Some artSubject"
    by (simp_all add: storedSubject_def storedSemester_fallStorage)
  have n: "''Math'' \<noteq> ''Chemistry''" "''Art'' \<noteq> ''Chemistry''" by simp_all
  from updateSubject_absent_old [OF a b c d, of "''#111111''"] a b c d w m r n show ?thesis
    by (simp add: Let_def bareSubject_def)
qed

section \<open>Tasks: appending, replacing and deleting\<close>

subsection \<open>Splice\<close>






subsection \<open>The task operations on each kind of stored record\<close>

lemma deleteTask_present:
  assumes "storedSubject semester subj s = Some sub" and "tasks sub = Some ts"
  shows "deleteTask semester subj i s =
           Some (Inr (), saveSemesterData semester
              ((storedSemester semester s)(subj \<mapsto> sub\<lparr>tasks := Some (splice ts i 1)\<rparr>)) s)"
  using storedSubject_semester [OF assms(1)] assms(2) by (simp add: deleteTask_def)

lemma addTask_appends:
  assumes "storedSubject semester subj s = Some sub" and "tasks sub = Some ts"
  shows "addTask semester subj t s =
           Some (Inr (), saveSemesterData semester
              ((storedSemester semester s)(subj \<mapsto> sub\<lparr>tasks := Some (ts @ [t])\<rparr>)) s)"
  using storedSubject_semester [OF assms(1)] assms(2) by (simp add: addTask_def)

lemma addTask_creates:
  assumes "getSemesterData semester s = SemesterObject sd"
    and "getProperty sd subj = Undefined"
  shows "addTask semester subj t s =
           Some (Inr (), saveSemesterData semester
              (sd(subj \<mapsto> \<lparr>tasks = Some [t], colorTag = Some ''#6C63FF''\<rparr>)) s)"
  using assms by (simp add: addTask_def)

lemma addTask_without_tasks:
  assumes "storedSubject semester subj s = Some sub" and "tasks sub = None"
  shows "addTask semester subj t s = Some (Inl TypeError, s)"
  using storedSubject_semester [OF assms(1)] assms(2) by (simp add: addTask_def)

lemma addTask_inherited:
  assumes "getSemesterData semester s = SemesterObject sd"
    and "getProperty sd subj = Inherited b"
  shows "addTask semester subj t s = Some (Inl TypeError, s)"
  using assms by (simp add: addTask_def)

lemma deleteTask_without_tasks:
  assumes "storedSubject semester subj s = Some sub" and "tasks sub = None"
  shows "deleteTask semester subj i s = Some (Inl TypeError, s)"
  using storedSubject_semester [OF assms(1)] assms(2) by (simp add: deleteTask_def)

lemma deleteTask_undefined:
  assumes "getSemesterData semester s = SemesterObject sd"
    and "getProperty sd subj = Undefined"
  shows "deleteTask semester subj i s = Some (Inr (), s)"
  using assms by (simp add: deleteTask_def)

lemma deleteTask_inherited:
  assumes "getSemesterData semester s = SemesterObject sd"
    and "getProperty sd subj = Inherited b"
  shows "deleteTask semester subj i s = Some (Inl TypeError, s)"
  using assms by (simp add: deleteTask_def)

lemma updateTask_without_tasks:
  assumes "storedSubject semester subj s = Some sub" and "tasks sub = None"
  shows "updateTask semester subj i t s = Some (Inl TypeError, s)"
  using storedSubject_semester [OF assms(1)] assms(2) by (simp add: updateTask_def)

lemma updateTask_undefined:
  assumes "getSemesterData semester s = SemesterObject sd"
    and "getProperty sd subj = Undefined"
  shows "updateTask semester subj i t s = Some (Inr (), s)"
  using assms by (simp add: updateTask_def)

lemma updateTask_inherited:
  assumes "getSemesterData semester s = SemesterObject sd"
    and "getProperty sd subj = Inherited b"
  shows "updateTask semester subj i t s = Some (Inl TypeError, s)"
  using assms by (simp add: updateTask_def)

lemma updateTask_in_range:
  assumes "storedSubject semester subj s = Some sub" and "tasks sub = Some ts"
    and "0 \<le> i" and "i < int (length ts)"
  shows "updateTask semester subj i t s =
           Some (Inr (), saveSemesterData semester
              ((storedSemester semester s)(subj \<mapsto> sub\<lparr>tasks := Some (ts[nat i := t])\<rparr>)) s)"
  using storedSubject_semester [OF assms(1)] assms(2,3,4) by (simp add: updateTask_def)

lemma updateTask_out_of_range:
  assumes "storedSubject semester subj s = Some sub" and "tasks sub = Some ts"
    and "i < 0 \<or> int (length ts) \<le> i"
  shows "updateTask semester subj i t s = Some (Inr (), s)"
  using storedSubject_semester [OF assms(1)] assms(2,3) by (auto simp add: updateTask_def)



subsection \<open>Records without a tasks field\<close>

text \<open>
  C3: the property is that \<^verbatim>\<open>addTask\<close> and \<^verbatim>\<open>deleteTask\<close> on a record without a
  \<^verbatim>\<open>tasks\<close> field behave as on an empty task list and never raise. Evaluated on such a
  record both throw \<^verbatim>\<open>TypeError\<close> and write nothing, while on the record with the empty
  list both succeed.
\<close>

theorem addTask_deleteTask_missing_tasks:
  "storedSubject ''Fall'' ''Math'' bareStorage = Some bareSubject \<and>
   tasks bareSubject = None \<and>
   addTask ''Fall'' ''Math'' hw1 bareStorage = Some (Inl TypeError, bareStorage) \<and>
   deleteTask ''Fall'' ''Math'' 0 bareStorage = Some (Inl TypeError, bareStorage) \<and>
   storedSubject ''Fall'' ''Math'' blankStorage = Some blankSubject \<and>
   tasks blankSubject = Some [] \<and>
   (\<exists>s'. addTask ''Fall'' ''Math'' hw1 blankStorage = Some (Inr (), s')) \<and>
   (\<exists>s'. deleteTask ''Fall'' ''Math'' 0 blankStorage = Some (Inr (), s'))"
proof -
  have a: "storedSubject ''Fall'' ''Math'' bareStorage = Some bareSubject"
    by (simp add: storedSubject_def storedSemester_def loadData_def bareStorage_def)
  have b: "tasks bareSubject = None" by (simp add: bareSubject_def)
  have c: "storedSubject ''Fall'' ''Math'' blankStorage = Some blankSubject"
    by (simp add: storedSubject_def storedSemester_def loadData_def blankStorage_def)
  have d: "tasks blankSubject = Some []" by (simp add: blankSubject_def)
  from a b c d addTask_without_tasks [OF a b] deleteTask_without_tasks [OF a b]
    addTask_appends [OF c d] deleteTask_present [OF c d]
  show ?thesis by simp
qed

text \<open>
  C4: the property is that \<^verbatim>\<open>addTask\<close> always succeeds. From the empty storage,
  renaming a subject that does not exist succeeds and leaves a record without \<^verbatim>\<open>tasks\<close>;
  \<^verbatim>\<open>addTask\<close> on that subject, in the storage the rename left, then throws
  \<^verbatim>\<open>TypeError\<close> and appends nothing.
\<close>

theorem addTask_after_rename_of_missing_subject:
  "updateSubject ''Fall'' ''Physics'' ''Math'' ''#111111'' emptyStorage =
     Some (Inr (), renamedStorage) \<and>
   addTask ''Fall'' ''Math'' hw1 renamedStorage = Some (Inl TypeError, renamedStorage)"
proof -
  have g: "getSemesterData ''Fall'' emptyStorage = SemesterObject Map.empty"
    by (rule getSemesterData_emptyStorage)
  have u: "getProperty (Map.empty :: semester_data) ''Math'' = Undefined"
    by (simp add: getProperty_def objectPrototypeFunctions_def)
  have "saveSemesterData ''Fall'' [''Math'' \<mapsto> \<lparr>tasks = None, colorTag = Some ''#111111''\<rparr>]
          emptyStorage = renamedStorage"
    by (simp add: saveSemesterData_def setProperty_def saveData_def loadData_def
        emptyStorage_def renamedStorage_def bareSubject_def)
  with updateSubject_from_absent [OF g _ _ u, of "''Physics''" "''#111111''"]
  have "updateSubject ''Fall'' ''Physics'' ''Math'' ''#111111'' emptyStorage =
     Some (Inr (), renamedStorage)"
    by simp
  moreover have "storedSubject ''Fall'' ''Math'' renamedStorage = Some bareSubject"
    by (simp add: storedSubject_def storedSemester_def loadData_def renamedStorage_def)
  then have "addTask ''Fall'' ''Math'' hw1 renamedStorage = Some (Inl TypeError, renamedStorage)"
    by (rule addTask_without_tasks) (simp add: bareSubject_def)
  ultimately show ?thesis by simp
qed

text \<open>
  C5: the property is that \<^verbatim>\<open>updateTask\<close> is a silent no-op whenever it does not
  replace a task. On a record without a \<^verbatim>\<open>tasks\<close> field no index is within bounds,
  and the call throws \<^verbatim>\<open>TypeError\<close> instead of returning.
\<close>

theorem updateTask_missing_tasks:
  "storedSubject ''Fall'' ''Math'' bareStorage = Some bareSubject \<and>
   tasks bareSubject = None \<and>
   updateTask ''Fall'' ''Math'' 0 hw1 bareStorage = Some (Inl TypeError, bareStorage) \<and>
   updateTask ''Fall'' ''Math'' 7 hw1 bareStorage = Some (Inl TypeError, bareStorage)"
proof -
  have a: "storedSubject ''Fall'' ''Math'' bareStorage = Some bareSubject"
    by (simp add: storedSubject_def storedSemester_def loadData_def bareStorage_def)
  have b: "tasks bareSubject = None" by (simp add: bareSubject_def)
  from a b updateTask_without_tasks [OF a b] show ?thesis by simp
qed

subsection \<open>Subject names inherited from the prototype\<close>

text \<open>
  The task operations on a name that is not a subject but is inherited: the guard is truthy,
  the \<^verbatim>\<open>tasks\<close> read is \<^verbatim>\<open>undefined\<close>, and each of them throws.
\<close>

lemma task_operations_on_constructor:
  "addTask ''Fall'' ''constructor'' hw1 fallStorage = Some (Inl TypeError, fallStorage)"
  "updateTask ''Fall'' ''constructor'' 0 hw1 fallStorage = Some (Inl TypeError, fallStorage)"
  "deleteTask ''Fall'' ''constructor'' 0 fallStorage = Some (Inl TypeError, fallStorage)"
  by (simp_all add: addTask_def updateTask_def deleteTask_def getSemesterData_fallStorage
      getProperty_def objectPrototypeFunctions_def)

end
